theory Spec2Isabelle
  imports Complex_Main "HOL-Library.Multiset"
begin

section \<open>JavaScript values and the operators the handlers apply to them\<close>

text \<open>
  The handlers of the API (the two server files) read fields of a JSON request body and
  of the rows handed over by the database driver, and apply JavaScript's loose operators
  to them: \<^verbatim>\<open>!x\<close>, \<^verbatim>\<open>x == null\<close>, \<^verbatim>\<open>isNaN(x)\<close>, \<^verbatim>\<open>Number(x)\<close>, \<^verbatim>\<open>a || b\<close>.

  Numbers are exact rationals plus \<open>NaN\<close>; rounding and the infinities of IEEE doubles
  are not modelled. A string is represented by what those operators can observe of it:
  whether it is empty, and the number it reads as.
  \<^item> \<open>JEmptyStr\<close> is the empty string (falsy, reads as 0);
  \<^item> \<open>JNumStr r\<close> is a non-empty string that reads as the number \<open>r\<close>
    (\<^verbatim>\<open>"25"\<close>, \<^verbatim>\<open>"12.50"\<close>);
  \<^item> \<open>JNaNStr\<close> is a non-empty string that reads as \<open>NaN\<close> (\<^verbatim>\<open>"abc"\<close>).
  Arrays and objects as field values are not modelled.
\<close>

datatype jsval =
    JUndefined
  | JNull
  | JBool bool
  | JNum rat
  | JNaN
  | JEmptyStr
  | JNumStr rat
  | JNaNStr

text \<open>\<^verbatim>\<open>!x\<close> is \<open>\<not> truthy x\<close>.\<close>

fun truthy :: "jsval \<Rightarrow> bool" where
  "truthy JUndefined = False"
| "truthy JNull = False"
| "truthy (JBool b) = b"
| "truthy (JNum r) = (r \<noteq> 0)"
| "truthy JNaN = False"
| "truthy JEmptyStr = False"
| "truthy (JNumStr r) = True"
| "truthy JNaNStr = True"

text \<open>\<^verbatim>\<open>x == null\<close> holds of \<open>null\<close> and \<open>undefined\<close> only.\<close>

fun eq_null :: "jsval \<Rightarrow> bool" where
  "eq_null JUndefined = True"
| "eq_null JNull = True"
| "eq_null _ = False"

text \<open>The abstract operation ToNumber; \<open>None\<close> is \<open>NaN\<close>.\<close>

fun ToNumber :: "jsval \<Rightarrow> rat option" where
  "ToNumber JUndefined = None"
| "ToNumber JNull = Some 0"
| "ToNumber (JBool b) = Some (if b then 1 else 0)"
| "ToNumber (JNum r) = Some r"
| "ToNumber JNaN = None"
| "ToNumber JEmptyStr = Some 0"
| "ToNumber (JNumStr r) = Some r"
| "ToNumber JNaNStr = None"

definition isNaN :: "jsval \<Rightarrow> bool" where
  "isNaN x = (ToNumber x = None)"

definition Number :: "jsval \<Rightarrow> jsval" where
  "Number x = (case ToNumber x of None \<Rightarrow> JNaN | Some r \<Rightarrow> JNum r)"

text \<open>\<^verbatim>\<open>a || b\<close>\<close>

definition js_or :: "jsval \<Rightarrow> jsval \<Rightarrow> jsval" where
  "js_or a b = (if truthy a then a else b)"

text \<open>\<^verbatim>\<open>typeof x === "number"\<close> with a value that JSON can carry (\<open>NaN\<close> is sent as \<open>null\<close>).\<close>

fun is_number :: "jsval \<Rightarrow> bool" where
  "is_number (JNum r) = True"
| "is_number _ = False"

text \<open>
  A request body after \<^verbatim>\<open>express.json()\<close>: a finite map from keys to values.
  Destructuring \<^verbatim>\<open>const { qty } = req.body\<close> gives \<open>undefined\<close> for an absent key.
\<close>

type_synonym body = "string \<rightharpoonup> jsval"

definition field :: "body \<Rightarrow> string \<Rightarrow> jsval" where
  "field b k = (case b k of None \<Rightarrow> JUndefined | Some v \<Rightarrow> v)"

text \<open>
  \<^verbatim>\<open>JSON.stringify\<close> of an object literal on the client, read back by the server:
  a key whose value is \<open>undefined\<close> is left out, \<open>NaN\<close> is written as \<open>null\<close>.
\<close>

fun json_value :: "jsval \<Rightarrow> jsval option" where
  "json_value JUndefined = None"
| "json_value JNaN = Some JNull"
| "json_value v = Some v"

fun JSON_stringify :: "(string \<times> jsval) list \<Rightarrow> body" where
  "JSON_stringify [] = Map.empty"
| "JSON_stringify ((k, v) # kvs) =
     (case json_value v of
        None \<Rightarrow> JSON_stringify kvs
      | Some w \<Rightarrow> (if k \<in> fst ` set kvs then JSON_stringify kvs else (JSON_stringify kvs)(k \<mapsto> w)))"


section \<open>The store: tables, constraints, statements\<close>

text \<open>
  The tables are named in the SQL of the handlers; the fields carry the aliases of the
  queries (\<open>p\<close> products, \<open>m\<close> machines, \<open>i\<close> inventory, \<open>s\<close> sales, \<open>si\<close> sale items).
  Integer columns are unbounded integers, decimal columns are rationals, \<open>NOW()\<close> is a
  natural number handed to each statement.
\<close>

record product_row =
  p_product_id :: int
  p_name :: string
  p_price :: rat
  p_unit :: string

record machine_row =
  m_machine_id :: int
  m_location :: "string option"
  m_description :: "string option"

record inventory_row =
  i_inv_id :: int
  i_machine_id :: int
  i_product_id :: int
  i_qty :: int
  i_last_restock :: nat

record sale_row =
  s_total_amount :: rat
  s_sale_time :: nat

record sale_item_row =
  si_product_id :: int
  si_qty :: int

record db =
  products :: "product_row list"
  machines :: "machine_row list"
  inventory :: "inventory_row list"
  sales :: "sale_row list"
  sale_items :: "sale_item_row list"
  next_inv_id :: int

text \<open>
  What the store makes of a JavaScript value bound to an integer column or compared with
  one: an integer-valued number is that integer. For every other value (a fraction, a
  boolean, a string) the conversion belongs to the store and is the parameter \<open>conv\<close>;
  \<open>None\<close> means that the statement is rejected and the handler's \<^verbatim>\<open>catch\<close> runs.
\<close>

definition bind_int :: "(jsval \<Rightarrow> int option) \<Rightarrow> jsval \<Rightarrow> int option" where
  "bind_int conv v =
     (case v of
        JNum r \<Rightarrow> (if of_int \<lfloor>r\<rfloor> = r then Some \<lfloor>r\<rfloor> else conv v)
      | _ \<Rightarrow> conv v)"

text \<open>
  \<^verbatim>\<open>UPDATE inventory SET qty = ? WHERE inv_id = ?\<close>. The statement names \<open>qty\<close> alone; the
  upsert below sets \<open>last_restock\<close> itself, so the column is taken to have no automatic
  update of its own.
\<close>

definition update_qty :: "int \<Rightarrow> int \<Rightarrow> db \<Rightarrow> db" where
  "update_qty q k d =
     d\<lparr>inventory := map (\<lambda>r. if i_inv_id r = k then r\<lparr>i_qty := q\<rparr> else r) (inventory d)\<rparr>"

text \<open>\<^verbatim>\<open>DELETE FROM inventory WHERE inv_id = ?\<close>\<close>

definition delete_row :: "int \<Rightarrow> db \<Rightarrow> db" where
  "delete_row k d = d\<lparr>inventory := filter (\<lambda>r. i_inv_id r \<noteq> k) (inventory d)\<rparr>"

text \<open>
  Modelled from the spec: the declaration of the inventory table is not among the source
  files. The spec gives it a generated id, the unique key \<open>(machine_id, product_id)\<close>
  and foreign keys to machines and products.
\<close>

definition same_pair :: "int \<Rightarrow> int \<Rightarrow> inventory_row \<Rightarrow> bool" where
  "same_pair m p r = (i_machine_id r = m \<and> i_product_id r = p)"

definition fk_ok :: "int \<Rightarrow> int \<Rightarrow> db \<Rightarrow> bool" where
  "fk_ok m p d = (m \<in> set (map m_machine_id (machines d)) \<and> p \<in> set (map p_product_id (products d)))"

text \<open>
  The \<^verbatim>\<open>ON DUPLICATE KEY UPDATE qty = COALESCE(qty,0) + VALUES(qty), last_restock = NOW()\<close>
  branch: the first row holding the key is updated. The older server file writes
  \<^verbatim>\<open>qty = qty + VALUES(qty)\<close>; on a column that holds no \<open>NULL\<close> the two are the same.
\<close>

fun on_duplicate_key_update :: "int \<Rightarrow> int \<Rightarrow> int \<Rightarrow> nat \<Rightarrow> inventory_row list \<Rightarrow> inventory_row list" where
  "on_duplicate_key_update m p q now [] = []"
| "on_duplicate_key_update m p q now (r # rs) =
     (if same_pair m p r then r\<lparr>i_qty := i_qty r + q, i_last_restock := now\<rparr> # rs
      else r # on_duplicate_key_update m p q now rs)"

text \<open>
  \<^verbatim>\<open>INSERT INTO inventory (machine_id, product_id, qty, last_restock) VALUES (?, ?, ?, NOW())
  ON DUPLICATE KEY UPDATE ...\<close> as one atomic statement; \<open>None\<close> when the store rejects it.
  A new row takes its id from the counter \<open>next_inv_id\<close>.
\<close>

definition upsert :: "int \<Rightarrow> int \<Rightarrow> int \<Rightarrow> nat \<Rightarrow> db \<Rightarrow> db option" where
  "upsert m p q now d =
     (if \<not> fk_ok m p d then None
      else if list_ex (same_pair m p) (inventory d)
      then Some (d\<lparr>inventory := on_duplicate_key_update m p q now (inventory d)\<rparr>)
      else Some (d\<lparr>inventory := inventory d @
                     [\<lparr>i_inv_id = next_inv_id d, i_machine_id = m, i_product_id = p,
                       i_qty = q, i_last_restock = now\<rparr>],
                   next_inv_id := next_inv_id d + 1\<rparr>))"

text \<open>
  \<^verbatim>\<open>SELECT i.inv_id, i.machine_id, i.product_id, p.name AS product_name, p.price, i.qty
  FROM inventory i JOIN products p ON p.product_id = i.product_id WHERE inv_id = ?\<close>
\<close>

record joined_row =
  row_inv_id :: int
  row_machine_id :: int
  row_product_id :: int
  row_product_name :: string
  row_price :: rat
  row_qty :: int

definition select_joined :: "int \<Rightarrow> db \<Rightarrow> joined_row list" where
  "select_joined k d =
     concat (map (\<lambda>i. map (\<lambda>p. \<lparr>row_inv_id = i_inv_id i, row_machine_id = i_machine_id i,
                                   row_product_id = i_product_id i, row_product_name = p_name p,
                                   row_price = p_price p, row_qty = i_qty i\<rparr>)
                          (filter (\<lambda>p. p_product_id p = i_product_id i) (products d)))
                 (filter (\<lambda>i. i_inv_id i = k) (inventory d)))"


section \<open>The inventory handlers of the server\<close>

datatype payload =
    PError string
  | POk
  | PRow "joined_row option"
  | PPage string

datatype response = Response nat payload

definition internal_error :: response where
  "internal_error = Response 500 (PError ''Internal Server Error'')"

text \<open>
  \<^verbatim>\<open>PUT /api/inventory/:invId\<close>, the same in both server files. \<open>invId\<close> is
  \<^verbatim>\<open>+req.params.invId\<close>. \<^verbatim>\<open>row[0]\<close> of an empty result is \<open>undefined\<close>.
\<close>

definition put_inventory :: "(jsval \<Rightarrow> int option) \<Rightarrow> jsval \<Rightarrow> body \<Rightarrow> db \<Rightarrow> response \<times> db" where
  "put_inventory conv invId b d =
     (let qty = field b ''qty'' in
      if eq_null qty \<or> isNaN qty then (Response 400 (PError ''qty required''), d)
      else (case (bind_int conv qty, bind_int conv invId) of
              (Some q, Some k) \<Rightarrow>
                (let d' = update_qty q k d
                 in (Response 200 (PRow (case select_joined k d' of [] \<Rightarrow> None | r # _ \<Rightarrow> Some r)), d'))
            | _ \<Rightarrow> (internal_error, d)))"

text \<open>\<^verbatim>\<open>POST /api/inventory\<close> of \<^verbatim>\<open>server.js\<close>: the guard is \<^verbatim>\<open>!machine_id || !product_id || qty == null\<close>.\<close>

definition post_inventory :: "(jsval \<Rightarrow> int option) \<Rightarrow> nat \<Rightarrow> body \<Rightarrow> db \<Rightarrow> response \<times> db" where
  "post_inventory conv now b d =
     (let machine_id = field b ''machine_id'';
          product_id = field b ''product_id'';
          qty = field b ''qty''
      in if \<not> truthy machine_id \<or> \<not> truthy product_id \<or> eq_null qty
         then (Response 400 (PError ''machine_id, product_id, qty required''), d)
         else (case (bind_int conv machine_id, bind_int conv product_id, bind_int conv qty) of
                 (Some m, Some p, Some q) \<Rightarrow>
                   (case upsert m p q now d of
                      None \<Rightarrow> (internal_error, d)
                    | Some d' \<Rightarrow> (Response 201 POk, d'))
               | _ \<Rightarrow> (internal_error, d)))"

text \<open>
  \<^verbatim>\<open>POST /api/inventory\<close> of the older server file (the CommonJS version): the guard is
  \<^verbatim>\<open>!machine_id || !product_id || !qty\<close>.
\<close>

definition post_inventory_cjs :: "(jsval \<Rightarrow> int option) \<Rightarrow> nat \<Rightarrow> body \<Rightarrow> db \<Rightarrow> response \<times> db" where
  "post_inventory_cjs conv now b d =
     (let machine_id = field b ''machine_id'';
          product_id = field b ''product_id'';
          qty = field b ''qty''
      in if \<not> truthy machine_id \<or> \<not> truthy product_id \<or> \<not> truthy qty
         then (Response 400 (PError ''machine_id, product_id, qty required''), d)
         else (case (bind_int conv machine_id, bind_int conv product_id, bind_int conv qty) of
                 (Some m, Some p, Some q) \<Rightarrow>
                   (case upsert m p q now d of
                      None \<Rightarrow> (internal_error, d)
                    | Some d' \<Rightarrow> (Response 201 POk, d'))
               | _ \<Rightarrow> (internal_error, d)))"

text \<open>\<^verbatim>\<open>DELETE /api/inventory/:invId\<close>, in \<^verbatim>\<open>server.js\<close> only.\<close>

definition delete_inventory :: "(jsval \<Rightarrow> int option) \<Rightarrow> jsval \<Rightarrow> db \<Rightarrow> response \<times> db" where
  "delete_inventory conv invId d =
     (if \<not> truthy invId then (Response 400 (PError ''invId required''), d)
      else (case bind_int conv invId of
              Some k \<Rightarrow> (Response 200 POk, delete_row k d)
            | None \<Rightarrow> (internal_error, d)))"

text \<open>The requests that change the ledger, and the routing of each server file.\<close>

datatype request =
    PUT_inventory jsval body
  | POST_inventory body
  | DELETE_inventory jsval

fun server :: "(jsval \<Rightarrow> int option) \<Rightarrow> nat \<Rightarrow> request \<Rightarrow> db \<Rightarrow> response \<times> db" where
  "server conv now (PUT_inventory invId b) d = put_inventory conv invId b d"
| "server conv now (POST_inventory b) d = post_inventory conv now b d"
| "server conv now (DELETE_inventory invId) d = delete_inventory conv invId d"

text \<open>
  The older file registers no \<^verbatim>\<open>DELETE /api/inventory/:invId\<close>: the framework answers 404
  with a page of its own.
\<close>

fun server_cjs :: "(jsval \<Rightarrow> int option) \<Rightarrow> nat \<Rightarrow> request \<Rightarrow> db \<Rightarrow> response \<times> db" where
  "server_cjs conv now (PUT_inventory invId b) d = put_inventory conv invId b d"
| "server_cjs conv now (POST_inventory b) d = post_inventory_cjs conv now b d"
| "server_cjs conv now (DELETE_inventory invId) d = (Response 404 (PPage ''Cannot DELETE''), d)"


section \<open>The service layer of the frontend\<close>

text \<open>
  \<^verbatim>\<open>updateInventory\<close> and \<^verbatim>\<open>restockInventory\<close> of \<^verbatim>\<open>services/api.ts\<close>: the request each one
  sends. The object literals are \<^verbatim>\<open>{ quantity }\<close> and
  \<^verbatim>\<open>{ machine_id: machineId, product_id: productId, quantity }\<close>.
  \<open>invId\<close> is a \<^verbatim>\<open>number\<close> (\<open>None\<close> is \<open>NaN\<close>); it travels in the path and the server reads it
  back with a unary plus.
\<close>

definition path_number :: "rat option \<Rightarrow> jsval" where
  "path_number n = (case n of None \<Rightarrow> JNaN | Some r \<Rightarrow> JNum r)"

definition updateInventory :: "rat option \<Rightarrow> jsval \<Rightarrow> request" where
  "updateInventory invId quantity =
     PUT_inventory (path_number invId) (JSON_stringify [(''quantity'', quantity)])"

definition restockInventory :: "jsval \<Rightarrow> jsval \<Rightarrow> jsval \<Rightarrow> request" where
  "restockInventory machineId productId quantity =
     POST_inventory (JSON_stringify [(''machine_id'', machineId), (''product_id'', productId),
                                     (''quantity'', quantity)])"


section \<open>The inventory page of the frontend\<close>

text \<open>
  \<^verbatim>\<open>pages/Inventory.tsx\<close>. Strings typed by the user are character lists; the whitespace
  and the letters handled are the ASCII ones.
\<close>

definition is_space :: "char \<Rightarrow> bool" where
  "is_space c = (c \<in> set [CHR 0x09, CHR 0x0A, CHR 0x0B, CHR 0x0C, CHR 0x0D, CHR '' ''])"

definition trim :: "string \<Rightarrow> string" where
  "trim s = rev (dropWhile is_space (rev (dropWhile is_space s)))"

definition lower :: "char \<Rightarrow> char" where
  "lower c = (case map_of (zip ''ABCDEFGHIJKLMNOPQRSTUVWXYZ'' ''abcdefghijklmnopqrstuvwxyz'') c of
                Some l \<Rightarrow> l | None \<Rightarrow> c)"

definition toLowerCase :: "string \<Rightarrow> string" where
  "toLowerCase s = map lower s"

definition digit_of :: "char \<Rightarrow> nat option" where
  "digit_of c = map_of (zip ''0123456789'' [0, 1, 2, 3, 4, 5, 6, 7, 8, 9]) c"

text \<open>The value of the longest prefix of decimal digits, continuing from \<open>acc\<close>.\<close>

fun digits_value :: "nat \<Rightarrow> string \<Rightarrow> nat" where
  "digits_value acc [] = acc"
| "digits_value acc (c # cs) =
     (case digit_of c of None \<Rightarrow> acc | Some v \<Rightarrow> digits_value (10 * acc + v) cs)"

text \<open>
  \<^verbatim>\<open>parseInt(s, 10)\<close>: leading whitespace, an optional sign, then the longest run of
  digits; \<open>None\<close> is \<open>NaN\<close>, returned when no digit follows.
\<close>

definition parseInt :: "string \<Rightarrow> int option" where
  "parseInt s =
     (let t = dropWhile is_space s;
          neg = (case t of [] \<Rightarrow> False | c # _ \<Rightarrow> c = CHR ''-'');
          u = (case t of [] \<Rightarrow> [] | c # r \<Rightarrow> if c = CHR ''-'' \<or> c = CHR ''+'' then r else t)
      in case u of
           [] \<Rightarrow> None
         | c # _ \<Rightarrow>
            (case digit_of c of
               None \<Rightarrow> None
             | Some _ \<Rightarrow> Some (if neg then - int (digits_value 0 u) else int (digits_value 0 u))))"

text \<open>An \<^verbatim>\<open>InventoryItem\<close> as \<^verbatim>\<open>normalizeInventoryItem\<close> builds it; the fields the handlers read.\<close>

record item =
  item_id :: int
  item_quantity :: int

datatype ui_action =
    Nothing
  | Toast string string
  | Send request

text \<open>
  \<^verbatim>\<open>handleRemove(item)\<close>. \<open>selectedMachine\<close> is a number or \<open>null\<close>; \<open>mode\<close> is the answer
  of \<^verbatim>\<open>window.prompt\<close> (\<open>None\<close> when cancelled), \<open>conf\<close> the answer of \<^verbatim>\<open>window.confirm\<close>.
\<close>

definition handleRemove :: "item \<Rightarrow> int option \<Rightarrow> string option \<Rightarrow> bool \<Rightarrow> ui_action" where
  "handleRemove it selectedMachine mode conf =
     (if selectedMachine = None \<or> selectedMachine = Some 0 then Nothing
      else case mode of
        None \<Rightarrow> Nothing
      | Some answer \<Rightarrow>
         (let trimmed = toLowerCase (trim answer) in
          if trimmed = [] then Nothing
          else if trimmed = ''all''
          then (if \<not> conf then Nothing
                else Send (DELETE_inventory (JNum (of_int (item_id it)))))
          else (case parseInt trimmed of
                  None \<Rightarrow> Toast ''Validation'' ''Invalid remove quantity''
                | Some removeQty \<Rightarrow>
                   (if removeQty < 0 then Toast ''Validation'' ''Invalid remove quantity''
                    else (let newQty = max 0 (item_quantity it - removeQty)
                          in Send (PUT_inventory (JNum (of_int (item_id it)))
                                     (JSON_stringify [(''qty'', JNum (of_int newQty))])))))))"

text \<open>
  The body \<^verbatim>\<open>handleRestock\<close> serialises once its own checks have passed:
  \<^verbatim>\<open>{ machine_id: selectedMachine, product_id: productId, qty: qty }\<close>.
\<close>

definition restock_body :: "int \<Rightarrow> int \<Rightarrow> int \<Rightarrow> body" where
  "restock_body m p q =
     JSON_stringify [(''machine_id'', JNum (of_int m)), (''product_id'', JNum (of_int p)),
                     (''qty'', JNum (of_int q))]"

text \<open>
  \<^verbatim>\<open>handleRestock()\<close>: \<open>productId\<close> and \<open>quantity\<close> are the strings of the form.
\<close>

definition handleRestock :: "int option \<Rightarrow> string \<Rightarrow> string \<Rightarrow> ui_action" where
  "handleRestock selectedMachine productId quantity =
     (case selectedMachine of
        None \<Rightarrow> Toast ''Error'' ''Select a machine first''
      | Some m \<Rightarrow>
         (if m = 0 then Toast ''Error'' ''Select a machine first''
          else (case (parseInt productId, parseInt quantity) of
                  (Some p, Some q) \<Rightarrow>
                    (if p = 0 \<or> q = 0 \<or> q \<le> 0
                     then Toast ''Error'' ''Enter a valid product and positive quantity''
                     else Send (POST_inventory (restock_body m p q)))
                | _ \<Rightarrow> Toast ''Error'' ''Enter a valid product and positive quantity'')))"

text \<open>What an action of the page does to the store behind \<^verbatim>\<open>server.js\<close>.\<close>

definition perform :: "(jsval \<Rightarrow> int option) \<Rightarrow> nat \<Rightarrow> ui_action \<Rightarrow> db \<Rightarrow> db" where
  "perform conv now a d = (case a of Send req \<Rightarrow> snd (server conv now req d) | _ \<Rightarrow> d)"


section \<open>The aggregate queries and the analytics handlers\<close>

text \<open>
  The pool is created with \<^verbatim>\<open>host\<close>, \<^verbatim>\<open>user\<close>, \<^verbatim>\<open>password\<close>, \<^verbatim>\<open>database\<close>,
  \<^verbatim>\<open>waitForConnections\<close> and \<^verbatim>\<open>connectionLimit\<close> and no other option. With these the driver
  hands over an integer column and a \<^verbatim>\<open>COUNT(*)\<close> as a number, and a \<^verbatim>\<open>DECIMAL\<close>, the type of
  a \<^verbatim>\<open>SUM(...)\<close> over integer and decimal columns, as a string holding its numeral.
\<close>

definition driver_int :: "int \<Rightarrow> jsval" where
  "driver_int n = JNum (of_int n)"

definition driver_decimal :: "rat \<Rightarrow> jsval" where
  "driver_decimal r = JNumStr r"

text \<open>\<^verbatim>\<open>SUM\<close> (here \<open>sql_sum\<close>) skips \<open>NULL\<close> and is \<open>NULL\<close> when nothing is left; \<^verbatim>\<open>COALESCE(x, y)\<close>.\<close>

definition sql_sum :: "rat option list \<Rightarrow> rat option" where
  "sql_sum xs = (if List.map_filter (\<lambda>x. x) xs = [] then None
             else Some (sum_list (List.map_filter (\<lambda>x. x) xs)))"

definition COALESCE :: "'a option \<Rightarrow> 'a \<Rightarrow> 'a" where
  "COALESCE x y = (case x of None \<Rightarrow> y | Some v \<Rightarrow> v)"

text \<open>\<^verbatim>\<open>SELECT COUNT(*) AS total_products FROM products\<close>, and the same of machines and sales.\<close>

definition count_products :: "db \<Rightarrow> int" where
  "count_products d = int (length (products d))"

definition count_machines :: "db \<Rightarrow> int" where
  "count_machines d = int (length (machines d))"

definition count_sales :: "db \<Rightarrow> int" where
  "count_sales d = int (length (sales d))"

text \<open>\<^verbatim>\<open>SELECT COALESCE(SUM(qty),0) AS total_stock_quantity FROM inventory\<close>\<close>

definition sum_qty :: "db \<Rightarrow> rat" where
  "sum_qty d = COALESCE (sql_sum (map (\<lambda>i. Some (of_int (i_qty i))) (inventory d))) 0"

text \<open>
  \<^verbatim>\<open>SELECT COALESCE(SUM(i.qty * p.price),0) AS total_stock_value
  FROM inventory i JOIN products p ON p.product_id = i.product_id\<close>
\<close>

definition sum_value :: "db \<Rightarrow> rat" where
  "sum_value d =
     COALESCE (sql_sum (concat (map (\<lambda>i. map (\<lambda>p. Some (of_int (i_qty i) * p_price p))
                                         (filter (\<lambda>p. p_product_id p = i_product_id i) (products d)))
                                (inventory d)))) 0"

text \<open>\<^verbatim>\<open>SELECT COALESCE(SUM(total_amount),0) AS total_revenue FROM sales\<close>\<close>

definition sum_revenue :: "db \<Rightarrow> rat" where
  "sum_revenue d = COALESCE (sql_sum (map (\<lambda>s. Some (s_total_amount s)) (sales d))) 0"

text \<open>
  \<^verbatim>\<open>SELECT p.name AS product_name, COALESCE(SUM(si.qty), 0) AS total_sales
  FROM sale_items si JOIN products p ON p.product_id = si.product_id
  GROUP BY si.product_id, p.name ORDER BY total_sales DESC LIMIT n\<close>.
  The order among equal totals is the store's; here it is that of a stable sort.
\<close>

definition sold :: "db \<Rightarrow> ((int \<times> string) \<times> int) list" where
  "sold d =
     concat (map (\<lambda>si. map (\<lambda>p. ((si_product_id si, p_name p), si_qty si))
                          (filter (\<lambda>p. p_product_id p = si_product_id si) (products d)))
                 (sale_items d))"

definition top_selling :: "nat \<Rightarrow> db \<Rightarrow> (string \<times> rat) list" where
  "top_selling n d =
     take n (sort_key (\<lambda>r. - snd r)
               (map (\<lambda>k. (snd k, COALESCE (sql_sum (map (\<lambda>r. Some (of_int (snd r)))
                                                    (filter (\<lambda>r. fst r = k) (sold d)))) 0))
                    (remdups (map fst (sold d)))))"

record top_product =
  product_name :: string
  total_sales :: jsval

record metrics =
  total_products :: jsval
  total_machines :: jsval
  total_stock_quantity :: jsval
  total_stock_value :: jsval
  total_revenue :: jsval
  total_sales_count :: jsval
  top_selling_products :: "top_product list"

text \<open>\<^verbatim>\<open>GET /api/metrics\<close> of \<^verbatim>\<open>server.js\<close>: the object given to \<^verbatim>\<open>res.json\<close>.\<close>

definition get_metrics :: "db \<Rightarrow> metrics" where
  "get_metrics d =
     \<lparr>total_products = driver_int (count_products d),
      total_machines = driver_int (count_machines d),
      total_stock_quantity = driver_decimal (sum_qty d),
      total_stock_value = js_or (Number (driver_decimal (sum_value d))) (JNum 0),
      total_revenue = js_or (Number (driver_decimal (sum_revenue d))) (JNum 0),
      total_sales_count = driver_int (count_sales d),
      top_selling_products =
        map (\<lambda>r. \<lparr>product_name = fst r,
                   total_sales = Number (js_or (driver_decimal (snd r)) (JNum 0))\<rparr>)
            (top_selling 10 d)\<rparr>"

text \<open>
  \<^verbatim>\<open>GET /api/metrics\<close> of the older server file: \<^verbatim>\<open>LIMIT 5\<close>, and
  \<^verbatim>\<open>total_sales: Number(row.total_sales) || 0\<close>.
\<close>

definition get_metrics_cjs :: "db \<Rightarrow> metrics" where
  "get_metrics_cjs d =
     \<lparr>total_products = driver_int (count_products d),
      total_machines = driver_int (count_machines d),
      total_stock_quantity = driver_decimal (sum_qty d),
      total_stock_value = js_or (Number (driver_decimal (sum_value d))) (JNum 0),
      total_revenue = js_or (Number (driver_decimal (sum_revenue d))) (JNum 0),
      total_sales_count = driver_int (count_sales d),
      top_selling_products =
        map (\<lambda>r. \<lparr>product_name = fst r,
                   total_sales = js_or (Number (driver_decimal (snd r))) (JNum 0)\<rparr>)
            (top_selling 5 d)\<rparr>"

record dashboard_metrics =
  totalProducts :: jsval
  activeMachines :: jsval
  itemsInStock :: jsval
  stockValue :: jsval

text \<open>\<^verbatim>\<open>GET /api/dashboard-metrics\<close>, the compatibility route of \<^verbatim>\<open>server.js\<close>, with its own queries.\<close>

definition get_dashboard_metrics :: "db \<Rightarrow> dashboard_metrics" where
  "get_dashboard_metrics d =
     \<lparr>totalProducts = driver_int (count_products d),
      activeMachines = driver_int (count_machines d),
      itemsInStock = driver_decimal (sum_qty d),
      stockValue = js_or (Number (driver_decimal (sum_value d))) (JNum 0)\<rparr>"

text \<open>Decimal numerals, for \<^verbatim>\<open>CONCAT('Machine ', m.machine_id)\<close>.\<close>

fun string_of_nat :: "nat \<Rightarrow> string" where
  "string_of_nat n =
     (if n < 10 then [''0123456789'' ! n]
      else string_of_nat (n div 10) @ [''0123456789'' ! (n mod 10)])"

definition string_of_int :: "int \<Rightarrow> string" where
  "string_of_int i = (if i < 0 then CHR ''-'' # string_of_nat (nat (- i)) else string_of_nat (nat i))"

text \<open>\<^verbatim>\<open>NULLIF(x, '')\<close>, the strings compared character by character.\<close>

definition NULLIF_empty :: "string option \<Rightarrow> string option" where
  "NULLIF_empty x = (case x of None \<Rightarrow> None | Some s \<Rightarrow> if s = [] then None else Some s)"

text \<open>
  \<^verbatim>\<open>COALESCE(NULLIF(m.location, ''), NULLIF(m.description, ''), CONCAT('Machine ', m.machine_id))\<close>
\<close>

definition sql_machine_name :: "machine_row \<Rightarrow> string" where
  "sql_machine_name m =
     COALESCE (NULLIF_empty (m_location m))
       (COALESCE (NULLIF_empty (m_description m))
          (''Machine '' @ string_of_int (m_machine_id m)))"

text \<open>
  The rows of \<^verbatim>\<open>machines m LEFT JOIN inventory i ON i.machine_id = m.machine_id
  LEFT JOIN products p ON p.product_id = i.product_id\<close> that stem from one machine, each with
  the grouping key \<^verbatim>\<open>(m.machine_id, machine_name)\<close>, \<^verbatim>\<open>i.qty\<close> and \<^verbatim>\<open>i.qty * p.price\<close>;
  a side without a match is \<open>NULL\<close>.
\<close>

definition joined_of_machine :: "db \<Rightarrow> machine_row \<Rightarrow> ((int \<times> string) \<times> rat option \<times> rat option) list" where
  "joined_of_machine d m =
     (let k = (m_machine_id m, sql_machine_name m);
          rows = filter (\<lambda>i. i_machine_id i = m_machine_id m) (inventory d)
      in if rows = [] then [(k, None, None)]
         else concat (map (\<lambda>i.
                 (let ps = filter (\<lambda>p. p_product_id p = i_product_id i) (products d)
                  in if ps = [] then [(k, Some (of_int (i_qty i)), None)]
                     else map (\<lambda>p. (k, Some (of_int (i_qty i)), Some (of_int (i_qty i) * p_price p))) ps))
               rows))"

record share_row =
  sr_machine_id :: int
  sr_machine_name :: string
  sr_total_qty :: rat
  sr_total_value :: rat

text \<open>
  The query of \<^verbatim>\<open>GET /api/machine-distribution\<close>:
  \<^verbatim>\<open>SELECT m.machine_id, ... AS machine_name, COALESCE(SUM(i.qty), 0) AS total_qty,
  COALESCE(SUM(i.qty * p.price), 0) AS total_value FROM ... GROUP BY m.machine_id, machine_name
  ORDER BY total_qty DESC\<close>.
\<close>

definition distribution_query :: "db \<Rightarrow> share_row list" where
  "distribution_query d =
     (let j = concat (map (joined_of_machine d) (machines d))
      in sort_key (\<lambda>r. - sr_total_qty r)
           (map (\<lambda>k. \<lparr>sr_machine_id = fst k, sr_machine_name = snd k,
                      sr_total_qty = COALESCE (sql_sum (map (\<lambda>r. fst (snd r)) (filter (\<lambda>r. fst r = k) j))) 0,
                      sr_total_value = COALESCE (sql_sum (map (\<lambda>r. snd (snd r)) (filter (\<lambda>r. fst r = k) j))) 0\<rparr>)
                (remdups (map fst j))))"

record machine_share =
  machine_id :: jsval
  machine_name :: string
  total_qty :: jsval
  total_value :: jsval

text \<open>\<^verbatim>\<open>GET /api/machine-distribution\<close>: the array given to \<^verbatim>\<open>res.json\<close>.\<close>

definition get_machine_distribution :: "db \<Rightarrow> machine_share list" where
  "get_machine_distribution d =
     map (\<lambda>r. \<lparr>machine_id = driver_int (sr_machine_id r),
                machine_name = sr_machine_name r,
                total_qty = Number (js_or (driver_decimal (sr_total_qty r)) (JNum 0)),
                total_value = Number (js_or (driver_decimal (sr_total_value r)) (JNum 0))\<rparr>)
         (distribution_query d)"


section \<open>The states the ledger can reach\<close>

definition unique_pairs :: "db \<Rightarrow> bool" where
  "unique_pairs d = distinct (map (\<lambda>r. (i_machine_id r, i_product_id r)) (inventory d))"

text \<open>
  From an empty ledger, by any request to either server file, at any time; the other
  tables may change in between in any way.
\<close>

inductive reachable :: "(jsval \<Rightarrow> int option) \<Rightarrow> db \<Rightarrow> bool" for conv where
  fresh: "inventory d = [] \<Longrightarrow> reachable conv d"
| step: "reachable conv d \<Longrightarrow> reachable conv (snd (server conv now req d))"
| step_cjs: "reachable conv d \<Longrightarrow> reachable conv (snd (server_cjs conv now req d))"
| other_tables: "reachable conv d \<Longrightarrow> reachable conv (d\<lparr>products := ps, machines := ms, sales := ss, sale_items := sis\<rparr>)"

text \<open>Restocking one pair again and again: the quantities and the times of the calls.\<close>

fun restock_all :: "(jsval \<Rightarrow> int option) \<Rightarrow> int \<Rightarrow> int \<Rightarrow> (int \<times> nat) list \<Rightarrow> db \<Rightarrow> db" where
  "restock_all conv m p [] d = d"
| "restock_all conv m p ((q, now) # rest) d =
     restock_all conv m p rest (snd (post_inventory conv now (restock_body m p q) d))"


section \<open>A small store for the examples\<close>

definition shop :: db where
  "shop = \<lparr>products = [\<lparr>p_product_id = 1, p_name = ''Cola'', p_price = 3 / 2, p_unit = ''pcs''\<rparr>,
                       \<lparr>p_product_id = 2, p_name = ''Chips'', p_price = 2, p_unit = ''pcs''\<rparr>],
           machines = [\<lparr>m_machine_id = 1, m_location = Some ''Lobby'', m_description = None\<rparr>,
                       \<lparr>m_machine_id = 2, m_location = Some [], m_description = Some ''Gym''\<rparr>,
                       \<lparr>m_machine_id = 3, m_location = None, m_description = Some []\<rparr>],
           inventory = [],
           sales = [],
           sale_items = [],
           next_inv_id = 1\<rparr>"

definition stocked :: db where
  "stocked = shop\<lparr>inventory := [\<lparr>i_inv_id = 1, i_machine_id = 2, i_product_id = 1, i_qty = 10,
                                   i_last_restock = 100\<rparr>,
                                  \<lparr>i_inv_id = 2, i_machine_id = 1, i_product_id = 2, i_qty = 15,
                                   i_last_restock = 120\<rparr>],
                    next_inv_id := 3\<rparr>"

definition trading :: db where
  "trading = stocked\<lparr>sales := [\<lparr>s_total_amount = 7 / 2, s_sale_time = 110\<rparr>,
                               \<lparr>s_total_amount = 2, s_sale_time = 115\<rparr>],
                      sale_items := [\<lparr>si_product_id = 1, si_qty = 1\<rparr>,
                                     \<lparr>si_product_id = 2, si_qty = 1\<rparr>,
                                     \<lparr>si_product_id = 2, si_qty = 1\<rparr>]\<rparr>"

definition no_conv :: "jsval \<Rightarrow> int option" where
  "no_conv v = None"


section \<open>Properties\<close>

subsection \<open>Facts about values, bodies and bound parameters\<close>

lemma bind_int_of_int [simp]: "bind_int conv (JNum (of_int n)) = Some n"
  by (simp add: bind_int_def)

lemma bind_int_numeral [simp]:
  "bind_int conv (JNum 0) = Some 0"
  "bind_int conv (JNum 1) = Some 1"
  "bind_int conv (JNum (numeral k)) = Some (numeral k)"
  "bind_int conv (JNum (- 1)) = Some (- 1)"
  "bind_int conv (JNum (- numeral k)) = Some (- numeral k)"
  using bind_int_of_int [of conv 0] bind_int_of_int [of conv 1] bind_int_of_int [of conv "numeral k"]
    bind_int_of_int [of conv "- 1"] bind_int_of_int [of conv "- numeral k"]
  by simp_all

lemma field_upd [simp]: "field (b(k \<mapsto> v)) k' = (if k' = k then v else field b k')"
  by (simp add: field_def)

lemma field_empty [simp]: "field Map.empty k = JUndefined"
  by (simp add: field_def)

lemma internal_error_neq [simp]:
  "internal_error \<noteq> Response 400 e" "internal_error \<noteq> Response 201 e" "internal_error \<noteq> Response 200 e"
  by (simp_all add: internal_error_def)

lemma Number_or_zero [simp]: "is_number (js_or (Number x) (JNum 0))"
  by (cases x) (auto simp: js_or_def Number_def)

lemma Number_decimal_or_zero [simp]: "Number (js_or (driver_decimal r) (JNum 0)) = JNum r"
  by (simp add: js_or_def Number_def driver_decimal_def)

subsection \<open>Restock is an additive upsert\<close>

lemma JSON_restock_fields [simp]:
  "field (restock_body m p q) ''machine_id'' = JNum (of_int m)"
  "field (restock_body m p q) ''product_id'' = JNum (of_int p)"
  "field (restock_body m p q) ''qty'' = JNum (of_int q)"
  by (simp_all add: restock_body_def)

lemma post_restock_body:
  assumes "m \<noteq> 0" "p \<noteq> 0"
  shows "post_inventory conv now (restock_body m p q) d =
     (case upsert m p q now d of None \<Rightarrow> (internal_error, d) | Some d' \<Rightarrow> (Response 201 POk, d'))"
  using assms by (simp add: post_inventory_def)

lemma post_cjs_restock_body:
  assumes "m \<noteq> 0" "p \<noteq> 0" "q \<noteq> 0"
  shows "post_inventory_cjs conv now (restock_body m p q) d =
     (case upsert m p q now d of None \<Rightarrow> (internal_error, d) | Some d' \<Rightarrow> (Response 201 POk, d'))"
  using assms by (simp add: post_inventory_cjs_def)

lemma handleRestock_sends:
  assumes "m \<noteq> 0" "parseInt productId = Some p" "parseInt quantity = Some q" "p \<noteq> 0" "0 < q"
  shows "handleRestock (Some m) productId quantity = Send (POST_inventory (restock_body m p q))"
  using assms by (simp add: handleRestock_def)

lemma on_duplicate_key_update_unique:
  "distinct (map (\<lambda>r. (i_machine_id r, i_product_id r)) rs) \<Longrightarrow>
   on_duplicate_key_update m p q now rs =
     map (\<lambda>r. if same_pair m p r then r\<lparr>i_qty := i_qty r + q, i_last_restock := now\<rparr> else r) rs"
proof (induction rs)
  case Nil
  then show ?case by simp
next
  case (Cons r rs)
  show ?case
  proof (cases "same_pair m p r")
    case True
    with Cons.prems have "\<forall>x\<in>set rs. \<not> same_pair m p x"
      by (auto simp: same_pair_def image_iff)
    then have "map (\<lambda>r. if same_pair m p r then r\<lparr>i_qty := i_qty r + q, i_last_restock := now\<rparr> else r) rs = rs"
      by (intro map_idI) simp
    with True show ?thesis by simp
  next
    case False
    with Cons show ?thesis by simp
  qed
qed

lemma filter_on_duplicate_single:
  "filter (same_pair m p) rs = [r] \<Longrightarrow>
   filter (same_pair m p) (on_duplicate_key_update m p q now rs) = [r\<lparr>i_qty := i_qty r + q, i_last_restock := now\<rparr>]"
proof (induction rs)
  case Nil
  then show ?case by simp
next
  case (Cons x rs)
  then show ?case
    by (cases "same_pair m p x") (auto simp: same_pair_def)
qed

lemma list_ex_filter: "list_ex P xs = (filter P xs \<noteq> [])"
  by (induction xs) auto

lemma upsert_fresh:
  assumes "fk_ok m p d" "\<not> list_ex (same_pair m p) (inventory d)"
  shows "upsert m p q now d =
     Some (d\<lparr>inventory := inventory d @
                [\<lparr>i_inv_id = next_inv_id d, i_machine_id = m, i_product_id = p, i_qty = q, i_last_restock = now\<rparr>],
              next_inv_id := next_inv_id d + 1\<rparr>)"
  using assms by (simp add: upsert_def)

lemma upsert_present:
  assumes "fk_ok m p d" "list_ex (same_pair m p) (inventory d)"
  shows "upsert m p q now d = Some (d\<lparr>inventory := on_duplicate_key_update m p q now (inventory d)\<rparr>)"
  using assms by (simp add: upsert_def)

lemma fk_ok_inventory [simp]:
  "fk_ok m p (d\<lparr>inventory := rs\<rparr>) = fk_ok m p d"
  "fk_ok m p (d\<lparr>next_inv_id := n\<rparr>) = fk_ok m p d"
  by (simp_all add: fk_ok_def)

text \<open>
  C1. A restock of quantity \<open>q\<close> at time \<open>now\<close> for a machine and a product that exist:
  when the pair has no row, one is appended with quantity \<open>q\<close> and \<open>last_restock = now\<close>;
  when it has one, that row's quantity grows by \<open>q\<close> and its \<open>last_restock\<close> becomes
  \<open>now\<close>. The older server file does the same for every \<open>q\<close> it lets through
  (\<open>q \<noteq> 0\<close>). Restocking 5 and then 3 on a fresh pair leaves one row, with quantity 8
  and the time of the second call.
\<close>

theorem restock_upsert:
  assumes "m \<noteq> 0" "p \<noteq> 0" "fk_ok m p d"
  shows "(\<not> list_ex (same_pair m p) (inventory d) \<longrightarrow>
            post_inventory conv now (restock_body m p q) d =
              (Response 201 POk,
               d\<lparr>inventory := inventory d @
                    [\<lparr>i_inv_id = next_inv_id d, i_machine_id = m, i_product_id = p, i_qty = q,
                      i_last_restock = now\<rparr>],
                  next_inv_id := next_inv_id d + 1\<rparr>))
       \<and> (list_ex (same_pair m p) (inventory d) \<and> unique_pairs d \<longrightarrow>
            post_inventory conv now (restock_body m p q) d =
              (Response 201 POk,
               d\<lparr>inventory := map (\<lambda>r. if same_pair m p r
                                         then r\<lparr>i_qty := i_qty r + q, i_last_restock := now\<rparr> else r)
                                   (inventory d)\<rparr>))
       \<and> (q \<noteq> 0 \<longrightarrow> post_inventory_cjs conv now (restock_body m p q) d
                       = post_inventory conv now (restock_body m p q) d)
       \<and> (\<not> list_ex (same_pair m p) (inventory d) \<longrightarrow>
            filter (same_pair m p) (inventory (snd (post_inventory conv t1 (restock_body m p 5) d)))
              = [\<lparr>i_inv_id = next_inv_id d, i_machine_id = m, i_product_id = p, i_qty = 5,
                  i_last_restock = t1\<rparr>]
            \<and> filter (same_pair m p)
                 (inventory (snd (post_inventory conv t2 (restock_body m p 3)
                                    (snd (post_inventory conv t1 (restock_body m p 5) d)))))
              = [\<lparr>i_inv_id = next_inv_id d, i_machine_id = m, i_product_id = p, i_qty = 8,
                  i_last_restock = t2\<rparr>])"
proof (intro conjI impI)
  assume fresh: "\<not> list_ex (same_pair m p) (inventory d)"
  show "post_inventory conv now (restock_body m p q) d =
              (Response 201 POk,
               d\<lparr>inventory := inventory d @
                    [\<lparr>i_inv_id = next_inv_id d, i_machine_id = m, i_product_id = p, i_qty = q,
                      i_last_restock = now\<rparr>],
                  next_inv_id := next_inv_id d + 1\<rparr>)"
    using assms fresh by (simp add: post_restock_body upsert_fresh)
next
  assume "list_ex (same_pair m p) (inventory d) \<and> unique_pairs d"
  then show "post_inventory conv now (restock_body m p q) d =
              (Response 201 POk,
               d\<lparr>inventory := map (\<lambda>r. if same_pair m p r
                                         then r\<lparr>i_qty := i_qty r + q, i_last_restock := now\<rparr> else r)
                                   (inventory d)\<rparr>)"
    using assms by (simp add: post_restock_body upsert_present unique_pairs_def on_duplicate_key_update_unique)
next
  assume "q \<noteq> 0"
  then show "post_inventory_cjs conv now (restock_body m p q) d = post_inventory conv now (restock_body m p q) d"
    using assms by (simp add: post_restock_body post_cjs_restock_body)
next
  assume fresh: "\<not> list_ex (same_pair m p) (inventory d)"
  let ?r = "\<lparr>i_inv_id = next_inv_id d, i_machine_id = m, i_product_id = p, i_qty = 5, i_last_restock = t1\<rparr>"
  let ?d1 = "d\<lparr>inventory := inventory d @ [?r], next_inv_id := next_inv_id d + 1\<rparr>"
  have d1: "snd (post_inventory conv t1 (restock_body m p 5) d) = ?d1"
    using assms fresh by (simp add: post_restock_body upsert_fresh)
  have f0: "filter (same_pair m p) (inventory d) = []"
    using fresh by (simp add: list_ex_filter)
  have f1: "filter (same_pair m p) (inventory ?d1) = [?r]"
    using f0 by (simp add: same_pair_def)
  show "filter (same_pair m p) (inventory (snd (post_inventory conv t1 (restock_body m p 5) d))) = [?r]"
    unfolding d1 by (rule f1)
  have ex1: "list_ex (same_pair m p) (inventory ?d1)"
    using f1 by (simp only: list_ex_filter) simp
  have fk1: "fk_ok m p ?d1"
    using assms by simp
  have "snd (post_inventory conv t2 (restock_body m p 3) ?d1)
          = ?d1\<lparr>inventory := on_duplicate_key_update m p 3 t2 (inventory ?d1)\<rparr>"
    using assms(1,2) by (simp add: post_restock_body upsert_present [OF fk1 ex1])
  then show "filter (same_pair m p)
                 (inventory (snd (post_inventory conv t2 (restock_body m p 3)
                                    (snd (post_inventory conv t1 (restock_body m p 5) d)))))
              = [\<lparr>i_inv_id = next_inv_id d, i_machine_id = m, i_product_id = p, i_qty = 8,
                  i_last_restock = t2\<rparr>]"
    unfolding d1 using filter_on_duplicate_single [OF f1, of 3 t2] by simp
qed


theorem restock_upsert_witness:
  "fk_ok 1 1 shop \<and> \<not> list_ex (same_pair 1 1) (inventory shop)
   \<and> filter (same_pair 1 1)
        (inventory (snd (post_inventory no_conv 20 (restock_body 1 1 3)
                           (snd (post_inventory no_conv 10 (restock_body 1 1 5) shop)))))
       = [\<lparr>i_inv_id = 1, i_machine_id = 1, i_product_id = 1, i_qty = 8, i_last_restock = 20\<rparr>]
   \<and> fk_ok 2 1 stocked \<and> list_ex (same_pair 2 1) (inventory stocked) \<and> unique_pairs stocked
   \<and> post_inventory_cjs no_conv 130 (restock_body 2 1 4) stocked =
       (Response 201 POk,
        stocked\<lparr>inventory :=
          [\<lparr>i_inv_id = 1, i_machine_id = 2, i_product_id = 1, i_qty = 14, i_last_restock = 130\<rparr>,
           \<lparr>i_inv_id = 2, i_machine_id = 1, i_product_id = 2, i_qty = 15, i_last_restock = 120\<rparr>]\<rparr>)"
proof -
  have fk: "fk_ok 1 1 shop" "fk_ok 2 1 stocked"
    by (simp_all add: fk_ok_def shop_def stocked_def)
  have fresh: "\<not> list_ex (same_pair 1 1) (inventory shop)"
    by (simp add: shop_def)
  have nid: "next_inv_id shop = 1"
    by (simp add: shop_def)
  have present: "list_ex (same_pair 2 1) (inventory stocked)" "unique_pairs stocked"
    by (simp_all add: stocked_def same_pair_def unique_pairs_def)
  have a: "filter (same_pair 1 1)
        (inventory (snd (post_inventory no_conv 20 (restock_body 1 1 3)
                           (snd (post_inventory no_conv 10 (restock_body 1 1 5) shop)))))
       = [\<lparr>i_inv_id = 1, i_machine_id = 1, i_product_id = 1, i_qty = 8, i_last_restock = 20\<rparr>]"
    using restock_upsert [where m = 1 and p = 1 and d = shop and conv = no_conv
        and now = 0 and q = 0 and ?t1.0 = 10 and ?t2.0 = 20, OF _ _ fk(1)] fresh nid
    by simp
  have b: "post_inventory_cjs no_conv 130 (restock_body 2 1 4) stocked =
       (Response 201 POk,
        stocked\<lparr>inventory := map (\<lambda>r. if same_pair 2 1 r
                                         then r\<lparr>i_qty := i_qty r + 4, i_last_restock := 130\<rparr> else r)
                                   (inventory stocked)\<rparr>)"
    using restock_upsert [where m = 2 and p = 1 and d = stocked and conv = no_conv
        and now = 130 and q = 4 and ?t1.0 = 0 and ?t2.0 = 0, OF _ _ fk(2)] present
    by simp
  have c: "map (\<lambda>r. if same_pair 2 1 r then r\<lparr>i_qty := i_qty r + 4, i_last_restock := 130\<rparr> else r)
             (inventory stocked)
           = [\<lparr>i_inv_id = 1, i_machine_id = 2, i_product_id = 1, i_qty = 14, i_last_restock = 130\<rparr>,
              \<lparr>i_inv_id = 2, i_machine_id = 1, i_product_id = 2, i_qty = 15, i_last_restock = 120\<rparr>]"
    by (simp add: stocked_def same_pair_def)
  show ?thesis
    using fk fresh present a b unfolding c by blast
qed

subsection \<open>One row for each pair of machine and product\<close>

lemma pairs_update_qty:
  "map (\<lambda>r. (i_machine_id r, i_product_id r)) (inventory (update_qty q k d))
   = map (\<lambda>r. (i_machine_id r, i_product_id r)) (inventory d)"
  by (simp add: update_qty_def comp_def if_distrib [of "\<lambda>r. (i_machine_id r, i_product_id r)"] cong: if_cong)

lemma pairs_on_duplicate:
  "map (\<lambda>r. (i_machine_id r, i_product_id r)) (on_duplicate_key_update m p q now rs)
   = map (\<lambda>r. (i_machine_id r, i_product_id r)) rs"
  by (induction rs) auto

lemma unique_pairs_upsert:
  assumes "unique_pairs d" "upsert m p q now d = Some d'"
  shows "unique_pairs d'"
proof (cases "list_ex (same_pair m p) (inventory d)")
  case True
  with assms show ?thesis
    by (auto simp: upsert_def unique_pairs_def pairs_on_duplicate split: if_splits)
next
  case False
  then have "(m, p) \<notin> set (map (\<lambda>r. (i_machine_id r, i_product_id r)) (inventory d))"
    by (auto simp: list_ex_iff same_pair_def)
  with assms False show ?thesis
    by (auto simp: upsert_def unique_pairs_def split: if_splits)
qed

lemma unique_pairs_put:
  "unique_pairs d \<Longrightarrow> unique_pairs (snd (put_inventory conv invId b d))"
  by (auto simp: put_inventory_def Let_def unique_pairs_def pairs_update_qty split: option.splits)

lemma unique_pairs_post:
  "unique_pairs d \<Longrightarrow> unique_pairs (snd (post_inventory conv now b d))"
  by (auto simp: post_inventory_def Let_def split: option.splits dest: unique_pairs_upsert)

lemma unique_pairs_post_cjs:
  "unique_pairs d \<Longrightarrow> unique_pairs (snd (post_inventory_cjs conv now b d))"
  by (auto simp: post_inventory_cjs_def Let_def split: option.splits dest: unique_pairs_upsert)

lemma unique_pairs_delete:
  "unique_pairs d \<Longrightarrow> unique_pairs (snd (delete_inventory conv invId d))"
  by (auto simp: delete_inventory_def delete_row_def unique_pairs_def distinct_map_filter split: option.splits)

lemma unique_pairs_server:
  "unique_pairs d \<Longrightarrow> unique_pairs (snd (server conv now req d))"
  by (cases req) (simp_all add: unique_pairs_put unique_pairs_post unique_pairs_delete)

lemma unique_pairs_server_cjs:
  "unique_pairs d \<Longrightarrow> unique_pairs (snd (server_cjs conv now req d))"
  by (cases req) (simp_all add: unique_pairs_put unique_pairs_post_cjs)

lemma unique_pairs_perform:
  "unique_pairs d \<Longrightarrow> unique_pairs (perform conv now a d)"
  by (cases a) (simp_all add: perform_def unique_pairs_server)

lemma reachable_unique_pairs: "reachable conv d \<Longrightarrow> unique_pairs d"
proof (induction rule: reachable.induct)
  case (fresh d)
  then show ?case by (simp add: unique_pairs_def)
next
  case (step d now req)
  then show ?case by (simp add: unique_pairs_server)
next
  case (step_cjs d now req)
  then show ?case by (simp add: unique_pairs_server_cjs)
next
  case (other_tables d ps ms ss sis)
  then show ?case by (simp add: unique_pairs_def)
qed

lemma restock_all_single:
  assumes "m \<noteq> 0" "p \<noteq> 0"
  shows "fk_ok m p d \<Longrightarrow> filter (same_pair m p) (inventory d) = [r] \<Longrightarrow>
     filter (same_pair m p) (inventory (restock_all conv m p qs d))
       = [r\<lparr>i_qty := i_qty r + sum_list (map fst qs),
             i_last_restock := (if qs = [] then i_last_restock r else snd (last qs))\<rparr>]"
proof (induction qs arbitrary: d r)
  case Nil
  then show ?case by simp
next
  case (Cons a qs)
  obtain q now where a: "a = (q, now)" by (cases a)
  let ?d1 = "d\<lparr>inventory := on_duplicate_key_update m p q now (inventory d)\<rparr>"
  have ex: "list_ex (same_pair m p) (inventory d)"
    using Cons.prems(2) by (simp add: list_ex_filter)
  have d1: "snd (post_inventory conv now (restock_body m p q) d) = ?d1"
    using assms by (simp add: post_restock_body upsert_present [OF Cons.prems(1) ex])
  have f1: "filter (same_pair m p) (inventory ?d1) = [r\<lparr>i_qty := i_qty r + q, i_last_restock := now\<rparr>]"
    using filter_on_duplicate_single [OF Cons.prems(2)] by simp
  have fk1: "fk_ok m p ?d1" using Cons.prems(1) by simp
  show ?case
    using Cons.IH [OF fk1 f1] by (simp add: a d1 add.assoc)
qed

text \<open>
  C2. No two inventory rows share a \<open>(machine_id, product_id)\<close> pair: every request to
  either server file keeps it so, the decrement and delete requests of the inventory
  page among them, and so it is in every reachable state. Restocks of one fresh pair,
  however many, end in a single row holding the sum of the quantities.
\<close>

theorem unique_pair_invariant:
  "(unique_pairs d \<longrightarrow>
      unique_pairs (snd (server conv now req d)) \<and> unique_pairs (snd (server_cjs conv now req d))
      \<and> unique_pairs (perform conv now (handleRemove it sel mode conf) d))
   \<and> (reachable conv d \<longrightarrow> unique_pairs d)
   \<and> (m \<noteq> 0 \<and> p \<noteq> 0 \<and> fk_ok m p d \<and> \<not> list_ex (same_pair m p) (inventory d) \<and> qs \<noteq> [] \<longrightarrow>
        filter (same_pair m p) (inventory (restock_all conv m p qs d))
          = [\<lparr>i_inv_id = next_inv_id d, i_machine_id = m, i_product_id = p,
              i_qty = sum_list (map fst qs), i_last_restock = snd (last qs)\<rparr>])"
proof (intro conjI impI)
  assume h: "m \<noteq> 0 \<and> p \<noteq> 0 \<and> fk_ok m p d \<and> \<not> list_ex (same_pair m p) (inventory d) \<and> qs \<noteq> []"
  then obtain q t rest where qs: "qs = (q, t) # rest" by (cases qs) auto
  let ?r = "\<lparr>i_inv_id = next_inv_id d, i_machine_id = m, i_product_id = p, i_qty = q, i_last_restock = t\<rparr>"
  let ?d1 = "d\<lparr>inventory := inventory d @ [?r], next_inv_id := next_inv_id d + 1\<rparr>"
  have d1: "snd (post_inventory conv t (restock_body m p q) d) = ?d1"
    using h by (simp add: post_restock_body upsert_fresh)
  have "filter (same_pair m p) (inventory d) = []"
    using h by (simp add: list_ex_filter)
  then have f1: "filter (same_pair m p) (inventory ?d1) = [?r]"
    by (simp add: same_pair_def)
  have fk1: "fk_ok m p ?d1" using h by simp
  from h have mp: "m \<noteq> 0" "p \<noteq> 0" by simp_all
  show "filter (same_pair m p) (inventory (restock_all conv m p qs d))
          = [\<lparr>i_inv_id = next_inv_id d, i_machine_id = m, i_product_id = p,
              i_qty = sum_list (map fst qs), i_last_restock = snd (last qs)\<rparr>]"
    using restock_all_single [OF mp fk1 f1, of conv rest] by (simp add: qs d1)
qed (simp_all add: unique_pairs_server unique_pairs_server_cjs unique_pairs_perform reachable_unique_pairs)


theorem unique_pair_invariant_witness:
  "unique_pairs stocked
   \<and> unique_pairs (snd (server no_conv 130 (POST_inventory (restock_body 2 1 4)) stocked))
   \<and> reachable no_conv (snd (server no_conv 10 (POST_inventory (restock_body 1 1 5)) shop))
   \<and> unique_pairs (snd (server no_conv 10 (POST_inventory (restock_body 1 1 5)) shop))
   \<and> (1::int) \<noteq> 0 \<and> fk_ok 1 1 shop \<and> \<not> list_ex (same_pair 1 1) (inventory shop)
   \<and> filter (same_pair 1 1) (inventory (restock_all no_conv 1 1 [(5, 10), (3, 20), (4, 30)] shop))
       = [\<lparr>i_inv_id = 1, i_machine_id = 1, i_product_id = 1, i_qty = 12, i_last_restock = 30\<rparr>]"
proof -
  have u: "unique_pairs stocked"
    by (simp add: unique_pairs_def stocked_def)
  have r: "reachable no_conv (snd (server no_conv 10 (POST_inventory (restock_body 1 1 5)) shop))"
    by (rule reachable.step, rule reachable.fresh) (simp add: shop_def)
  have fk: "fk_ok 1 1 shop"
    by (simp add: fk_ok_def shop_def)
  have fresh: "\<not> list_ex (same_pair 1 1) (inventory shop)"
    by (simp add: shop_def)
  have nid: "next_inv_id shop = 1"
    by (simp add: shop_def)
  have a: "unique_pairs (snd (server no_conv 130 (POST_inventory (restock_body 2 1 4)) stocked))"
    using unique_pair_invariant [where d = stocked and conv = no_conv and now = 130
        and req = "POST_inventory (restock_body 2 1 4)"] u
    by blast
  have b: "unique_pairs (snd (server no_conv 10 (POST_inventory (restock_body 1 1 5)) shop))"
    using unique_pair_invariant [where d = "snd (server no_conv 10 (POST_inventory (restock_body 1 1 5)) shop)"
        and conv = no_conv] r
    by blast
  have c: "filter (same_pair 1 1) (inventory (restock_all no_conv 1 1 [(5, 10), (3, 20), (4, 30)] shop))
       = [\<lparr>i_inv_id = 1, i_machine_id = 1, i_product_id = 1, i_qty = 12, i_last_restock = 30\<rparr>]"
    using unique_pair_invariant [where d = shop and conv = no_conv and m = 1 and p = 1
        and qs = "[(5, 10), (3, 20), (4, 30)]"] fk fresh nid
    by simp
  show ?thesis
    using u a r b fk fresh c by simp
qed

subsection \<open>What the direct set validates\<close>

text \<open>
  C3, as stated, fails: the handler tests \<^verbatim>\<open>qty == null || isNaN(qty)\<close> and nothing else, so
  a quantity of -1 passes and is written to the row.
\<close>

theorem set_quantity_negative_accepted:
  "put_inventory no_conv (JNum 1) [''qty'' \<mapsto> JNum (- 1)] stocked =
     (Response 200 (PRow (Some \<lparr>row_inv_id = 1, row_machine_id = 2, row_product_id = 1,
                                 row_product_name = ''Cola'', row_price = 3 / 2, row_qty = - 1\<rparr>)),
      stocked\<lparr>inventory := [\<lparr>i_inv_id = 1, i_machine_id = 2, i_product_id = 1, i_qty = - 1, i_last_restock = 100\<rparr>,
                             \<lparr>i_inv_id = 2, i_machine_id = 1, i_product_id = 2, i_qty = 15, i_last_restock = 120\<rparr>]\<rparr>)"
  by (simp add: put_inventory_def isNaN_def update_qty_def select_joined_def stocked_def shop_def)

text \<open>
  C3, amended. The direct-set handler answers 400 and leaves the store untouched exactly
  when \<open>qty\<close> is missing, \<open>null\<close> or reads as \<open>NaN\<close>; an integer of either sign is
  written as it is to the rows with the targeted id.
\<close>

theorem set_quantity_validation:
  "(put_inventory conv invId b d = (Response 400 (PError ''qty required''), d))
     = (eq_null (field b ''qty'') \<or> isNaN (field b ''qty''))
   \<and> inventory (snd (put_inventory conv (JNum (of_int k)) [''qty'' \<mapsto> JNum (of_int q)] d))
     = map (\<lambda>r. if i_inv_id r = k then r\<lparr>i_qty := q\<rparr> else r) (inventory d)"
proof -
  have "(put_inventory conv invId b d = (Response 400 (PError ''qty required''), d))
     = (eq_null (field b ''qty'') \<or> isNaN (field b ''qty''))"
    by (auto simp: put_inventory_def Let_def split: option.splits)
  moreover have "inventory (snd (put_inventory conv (JNum (of_int k)) [''qty'' \<mapsto> JNum (of_int q)] d))
     = map (\<lambda>r. if i_inv_id r = k then r\<lparr>i_qty := q\<rparr> else r) (inventory d)"
    by (simp add: put_inventory_def isNaN_def update_qty_def Let_def)
  ultimately show ?thesis by (rule conjI)
qed

theorem set_quantity_validation_witness:
  "put_inventory no_conv (JNum 1) [''qty'' \<mapsto> JNull] stocked = (Response 400 (PError ''qty required''), stocked)
   \<and> put_inventory no_conv (JNum 1) [''qty'' \<mapsto> JNaNStr] stocked = (Response 400 (PError ''qty required''), stocked)
   \<and> put_inventory no_conv (JNum 1) Map.empty stocked = (Response 400 (PError ''qty required''), stocked)
   \<and> put_inventory no_conv (JNum 1) [''qty'' \<mapsto> JNum (- 1)] stocked \<noteq> (Response 400 (PError ''qty required''), stocked)
   \<and> map i_qty (inventory (snd (put_inventory no_conv (JNum (of_int 1)) [''qty'' \<mapsto> JNum (of_int (- 1))] stocked)))
       = [- 1, 15]"
proof -
  have a: "put_inventory no_conv (JNum 1) [''qty'' \<mapsto> JNull] stocked = (Response 400 (PError ''qty required''), stocked)"
    using set_quantity_validation [of no_conv "JNum 1" "[''qty'' \<mapsto> JNull]" stocked] by simp
  have b: "put_inventory no_conv (JNum 1) [''qty'' \<mapsto> JNaNStr] stocked = (Response 400 (PError ''qty required''), stocked)"
    using set_quantity_validation [of no_conv "JNum 1" "[''qty'' \<mapsto> JNaNStr]" stocked] by (simp add: isNaN_def)
  have c: "put_inventory no_conv (JNum 1) Map.empty stocked = (Response 400 (PError ''qty required''), stocked)"
    using set_quantity_validation [of no_conv "JNum 1" Map.empty stocked] by simp
  have d: "put_inventory no_conv (JNum 1) [''qty'' \<mapsto> JNum (- 1)] stocked \<noteq> (Response 400 (PError ''qty required''), stocked)"
    using set_quantity_validation [of no_conv "JNum 1" "[''qty'' \<mapsto> JNum (- 1)]" stocked] by (simp add: isNaN_def)
  have e: "map i_qty (inventory (snd (put_inventory no_conv (JNum (of_int 1)) [''qty'' \<mapsto> JNum (of_int (- 1))] stocked)))
       = [- 1, 15]"
    using set_quantity_validation [of no_conv "JNum 1" "[''qty'' \<mapsto> JNum (- 1)]" stocked 1 "- 1", THEN conjunct2]
    by (simp add: stocked_def)
  show ?thesis using a b c d e by blast
qed

subsection \<open>Removal by decrement\<close>

lemma parseInt_not_number [simp]: "parseInt [] = None" "parseInt ''all'' = None"
  by (simp_all add: parseInt_def is_space_def digit_of_def)

lemma field_qty_body [simp]: "field (JSON_stringify [(''qty'', JNum r)]) ''qty'' = JNum r"
  by simp

lemma handleRemove_decrement:
  assumes "sel = Some s" "s \<noteq> 0" "parseInt (toLowerCase (trim answer)) = Some r" "0 \<le> r"
  shows "handleRemove it sel (Some answer) conf =
     Send (PUT_inventory (JNum (of_int (item_id it)))
             (JSON_stringify [(''qty'', JNum (of_int (max 0 (item_quantity it - r))))]))"
proof -
  have "toLowerCase (trim answer) \<noteq> []" "toLowerCase (trim answer) \<noteq> ''all''"
    using assms(3) by auto
  with assms show ?thesis
    by (simp add: handleRemove_def Let_def)
qed

text \<open>
  C4. Removing \<open>r\<close> units from an item whose quantity is \<open>q\<close> sends a direct-set of
  \<open>max 0 (q - r)\<close>: the row keeps its place in the table, its quantity is never negative,
  and it is 0 when \<open>r\<close> is at least \<open>q\<close>.
\<close>

theorem remove_decrement_clamps:
  assumes "sel = Some s" "s \<noteq> 0" "parseInt (toLowerCase (trim answer)) = Some r" "0 \<le> r"
  shows "handleRemove it sel (Some answer) conf =
           Send (PUT_inventory (JNum (of_int (item_id it)))
                   (JSON_stringify [(''qty'', JNum (of_int (max 0 (item_quantity it - r))))]))
     \<and> inventory (perform conv now (handleRemove it sel (Some answer) conf) d)
         = map (\<lambda>x. if i_inv_id x = item_id it then x\<lparr>i_qty := max 0 (item_quantity it - r)\<rparr> else x)
             (inventory d)
     \<and> map i_inv_id (inventory (perform conv now (handleRemove it sel (Some answer) conf) d))
         = map i_inv_id (inventory d)
     \<and> (\<forall>x \<in> set (inventory (perform conv now (handleRemove it sel (Some answer) conf) d)).
           i_inv_id x = item_id it \<longrightarrow>
             i_qty x = max 0 (item_quantity it - r) \<and> 0 \<le> i_qty x
             \<and> (item_quantity it \<le> r \<longrightarrow> i_qty x = 0))"
proof -
  let ?q = "max 0 (item_quantity it - r)"
  have act: "handleRemove it sel (Some answer) conf =
     Send (PUT_inventory (JNum (of_int (item_id it))) (JSON_stringify [(''qty'', JNum (of_int ?q))]))"
    using assms by (rule handleRemove_decrement)
  have inv: "inventory (perform conv now (handleRemove it sel (Some answer) conf) d)
         = map (\<lambda>x. if i_inv_id x = item_id it then x\<lparr>i_qty := ?q\<rparr> else x) (inventory d)"
    unfolding act by (simp add: perform_def put_inventory_def isNaN_def update_qty_def Let_def)
  have ids: "map i_inv_id (map (\<lambda>x. if i_inv_id x = item_id it then x\<lparr>i_qty := ?q\<rparr> else x) (inventory d))
         = map i_inv_id (inventory d)"
    by (simp add: comp_def if_distrib [of i_inv_id] cong: if_cong)
  show ?thesis
    unfolding inv ids using act by auto
qed

theorem remove_decrement_clamps_witness:
  "parseInt (toLowerCase (trim '' 15 '')) = Some 15
   \<and> inventory (perform no_conv 200 (handleRemove \<lparr>item_id = 1, item_quantity = 10\<rparr> (Some 2) (Some '' 15 '') False) stocked)
     = [\<lparr>i_inv_id = 1, i_machine_id = 2, i_product_id = 1, i_qty = 0, i_last_restock = 100\<rparr>,
        \<lparr>i_inv_id = 2, i_machine_id = 1, i_product_id = 2, i_qty = 15, i_last_restock = 120\<rparr>]"
proof -
  have p: "parseInt (toLowerCase (trim '' 15 '')) = Some 15"
    by (simp add: parseInt_def toLowerCase_def trim_def lower_def is_space_def digit_of_def)
  have "inventory (perform no_conv 200 (handleRemove \<lparr>item_id = 1, item_quantity = 10\<rparr> (Some 2) (Some '' 15 '') False) stocked)
     = map (\<lambda>x. if i_inv_id x = item_id \<lparr>item_id = 1, item_quantity = 10\<rparr>
                 then x\<lparr>i_qty := max 0 (item_quantity \<lparr>item_id = 1, item_quantity = 10\<rparr> - 15)\<rparr> else x)
             (inventory stocked)"
    using remove_decrement_clamps [where sel = "Some 2" and s = 2 and answer = "'' 15 ''" and r = 15
        and it = "\<lparr>item_id = 1, item_quantity = 10\<rparr>" and conf = False and conv = no_conv
        and now = 200 and d = stocked, OF _ _ p, THEN conjunct2, THEN conjunct1]
    by simp
  then show ?thesis
    using p by (simp add: stocked_def)
qed

subsection \<open>The two metrics routes\<close>

text \<open>
  C5. On one state of the store the compatibility route returns, under its own names, the
  values of \<open>total_products\<close>, \<open>total_machines\<close>, \<open>total_stock_quantity\<close> and
  \<open>total_stock_value\<close> of the primary route.
\<close>

theorem compatibility_view_agrees:
  "totalProducts (get_dashboard_metrics d) = total_products (get_metrics d)
   \<and> activeMachines (get_dashboard_metrics d) = total_machines (get_metrics d)
   \<and> itemsInStock (get_dashboard_metrics d) = total_stock_quantity (get_metrics d)
   \<and> stockValue (get_dashboard_metrics d) = total_stock_value (get_metrics d)"
  by (simp add: get_dashboard_metrics_def get_metrics_def)

subsection \<open>What the restock endpoint validates\<close>

text \<open>
  C6, as stated, fails on \<^verbatim>\<open>server.js\<close>: its guard tests \<^verbatim>\<open>qty == null\<close>, so a quantity of 0,
  which is not truthy, passes and a row is written.
\<close>

theorem restock_zero_accepted:
  "\<not> truthy (field (restock_body 1 1 0) ''qty'')
   \<and> post_inventory no_conv 7 (restock_body 1 1 0) shop =
       (Response 201 POk,
        shop\<lparr>inventory := [\<lparr>i_inv_id = 1, i_machine_id = 1, i_product_id = 1, i_qty = 0, i_last_restock = 7\<rparr>],
             next_inv_id := 2\<rparr>)"
  by (simp add: restock_body_def post_inventory_def upsert_def fk_ok_def shop_def same_pair_def)

text \<open>
  C6, amended. \<^verbatim>\<open>server.js\<close> answers 400 and leaves the store untouched exactly when
  \<open>machine_id\<close> or \<open>product_id\<close> is missing or not truthy, or \<open>qty\<close> is missing or \<open>null\<close>;
  the older server file does so exactly when one of the three is missing or not truthy.
\<close>

theorem restock_validation:
  "(post_inventory conv now b d = (Response 400 (PError ''machine_id, product_id, qty required''), d))
     = (\<not> truthy (field b ''machine_id'') \<or> \<not> truthy (field b ''product_id'') \<or> eq_null (field b ''qty''))
   \<and> (post_inventory_cjs conv now b d = (Response 400 (PError ''machine_id, product_id, qty required''), d))
     = (\<not> truthy (field b ''machine_id'') \<or> \<not> truthy (field b ''product_id'') \<or> \<not> truthy (field b ''qty''))"
  by (auto simp: post_inventory_def post_inventory_cjs_def Let_def split: option.splits)

text \<open>
  The restock of quantity 0: accepted by \<^verbatim>\<open>server.js\<close>, refused by the older file.
\<close>

theorem restock_validation_witness:
  "post_inventory no_conv 7 (restock_body 1 1 0) shop \<noteq> (Response 400 (PError ''machine_id, product_id, qty required''), shop)
   \<and> post_inventory_cjs no_conv 7 (restock_body 1 1 0) shop = (Response 400 (PError ''machine_id, product_id, qty required''), shop)"
  using restock_validation [of no_conv 7 "restock_body 1 1 0" shop]
  by (simp add: restock_body_def)

subsection \<open>The distribution over machines\<close>

lemma concat_map_nonempty:
  assumes "xs \<noteq> []" "\<And>x. f x \<noteq> []"
  shows "concat (map f xs) \<noteq> []"
  using assms by (cases xs) simp_all

lemma joined_of_machine_nonempty: "joined_of_machine d m \<noteq> []"
proof (cases "filter (\<lambda>i. i_machine_id i = m_machine_id m) (inventory d) = []")
  case True
  then show ?thesis by (simp add: joined_of_machine_def)
next
  case False
  then show ?thesis
    unfolding joined_of_machine_def Let_def
    by (simp only: if_False) (rule concat_map_nonempty, assumption, simp)
qed

lemma joined_of_machine_key:
  "r \<in> set (joined_of_machine d m) \<Longrightarrow> fst r = (m_machine_id m, sql_machine_name m)"
  by (auto simp: joined_of_machine_def Let_def split: if_splits)

lemma remdups_constant_prefix:
  "xs \<noteq> [] \<Longrightarrow> \<forall>x\<in>set xs. x = k \<Longrightarrow> k \<notin> set ys \<Longrightarrow> remdups (xs @ ys) = k # remdups ys"
proof (induction xs)
  case Nil
  then show ?case by simp
next
  case (Cons a xs)
  from Cons.prems(2) have a: "a = k" by simp
  show ?case
  proof (cases "xs = []")
    case True
    with a Cons.prems(3) show ?thesis by simp
  next
    case False
    from Cons.prems(2) have all: "\<forall>x\<in>set xs. x = k" by simp
    from False obtain b bs where "xs = b # bs" by (cases xs) auto
    with all have "k \<in> set xs" by simp
    moreover have "remdups (xs @ ys) = k # remdups ys"
      using False all Cons.prems(3) by (rule Cons.IH)
    ultimately show ?thesis by (simp add: a)
  qed
qed

lemma group_keys:
  assumes "\<And>m. g m \<noteq> []" "\<And>m r. r \<in> set (g m) \<Longrightarrow> fst r = k m"
  shows "distinct (map k ms) \<Longrightarrow> remdups (map fst (concat (map g ms))) = map k ms"
proof (induction ms)
  case Nil
  then show ?case by simp
next
  case (Cons m ms)
  have "k m \<notin> set (map fst (concat (map g ms)))"
    using Cons.prems assms(2) by (auto simp: image_iff) 
  moreover have "map fst (g m) \<noteq> []" "\<forall>x\<in>set (map fst (g m)). x = k m"
    using assms by auto
  ultimately have "remdups (map fst (g m) @ map fst (concat (map g ms))) = k m # remdups (map fst (concat (map g ms)))"
    by (intro remdups_constant_prefix)
  with Cons show ?case by simp
qed

lemma group_rows:
  assumes "\<And>m r. r \<in> set (g m) \<Longrightarrow> fst r = k m"
  shows "distinct (map k ms) \<Longrightarrow> m \<in> set ms \<Longrightarrow>
         filter (\<lambda>r. fst r = k m) (concat (map g ms)) = g m"
proof (induction ms)
  case Nil
  then show ?case by simp
next
  case (Cons a ms)
  show ?case
  proof (cases "a = m")
    case True
    have "filter (\<lambda>r. fst r = k m) (g m) = g m"
      using assms by (auto intro: filter_True)
    moreover have "filter (\<lambda>r. fst r = k m) (concat (map g ms)) = []"
      using Cons.prems(1) True assms by (auto simp: filter_empty_conv image_iff)
    ultimately show ?thesis using True by simp
  next
    case False
    then have "m \<in> set ms" using Cons.prems by simp
    moreover have "k a \<noteq> k m" using Cons.prems False by (auto simp: image_iff)
    then have "filter (\<lambda>r. fst r = k m) (g a) = []"
      using assms by (auto simp: filter_empty_conv)
    ultimately show ?thesis using Cons by simp
  qed
qed

lemma distinct_machine_keys:
  "distinct (map m_machine_id ms) \<Longrightarrow> distinct (map (\<lambda>m. (m_machine_id m, sql_machine_name m)) ms)"
  by (induction ms) (auto simp: image_iff)

lemma distribution_query_by_machine:
  assumes "distinct (map m_machine_id (machines d))"
  shows "distribution_query d =
     sort_key (\<lambda>r. - sr_total_qty r)
       (map (\<lambda>m. \<lparr>sr_machine_id = m_machine_id m, sr_machine_name = sql_machine_name m,
                   sr_total_qty = COALESCE (sql_sum (map (\<lambda>r. fst (snd r)) (joined_of_machine d m))) 0,
                   sr_total_value = COALESCE (sql_sum (map (\<lambda>r. snd (snd r)) (joined_of_machine d m))) 0\<rparr>)
            (machines d))"
proof -
  let ?k = "\<lambda>m. (m_machine_id m, sql_machine_name m)"
  let ?j = "concat (map (joined_of_machine d) (machines d))"
  have dk: "distinct (map ?k (machines d))"
    using assms by (rule distinct_machine_keys)
  have keys: "remdups (map fst ?j) = map ?k (machines d)"
    using joined_of_machine_nonempty joined_of_machine_key dk
    by (rule group_keys [where g = "joined_of_machine d" and k = ?k])
  have rows: "\<And>m. m \<in> set (machines d) \<Longrightarrow> filter (\<lambda>r. fst r = ?k m) ?j = joined_of_machine d m"
    using joined_of_machine_key dk
    by (rule group_rows [where g = "joined_of_machine d" and k = ?k])
  show ?thesis
    unfolding distribution_query_def Let_def keys
    by (simp add: comp_def rows cong: map_cong)
qed

lemma sorted_neg_descending:
  "sorted (map (\<lambda>r. - f r) xs) \<Longrightarrow> sorted_wrt (\<lambda>a b. b \<le> a) (map f xs)"
  for f :: "'a \<Rightarrow> rat"
  by (simp add: sorted_wrt_map)

lemma distribution_query_sorted:
  "sorted_wrt (\<lambda>a b. b \<le> a) (map sr_total_qty (distribution_query d))"
  unfolding distribution_query_def Let_def
  by (rule sorted_neg_descending) (rule sorted_sort_key)

lemma total_qty_of_rows:
  "map total_qty (get_machine_distribution d) = map JNum (map sr_total_qty (distribution_query d))"
  by (simp add: get_machine_distribution_def comp_def)

lemma sql_machine_name_priority:
  "sql_machine_name m =
     (if m_location m \<noteq> None \<and> m_location m \<noteq> Some [] then the (m_location m)
      else if m_description m \<noteq> None \<and> m_description m \<noteq> Some [] then the (m_description m)
      else ''Machine '' @ string_of_int (m_machine_id m))"
  by (auto simp: sql_machine_name_def COALESCE_def NULLIF_empty_def split: option.splits)

lemma joined_of_machine_empty:
  "filter (\<lambda>i. i_machine_id i = m_machine_id m) (inventory d) = [] \<Longrightarrow>
   joined_of_machine d m = [((m_machine_id m, sql_machine_name m), None, None)]"
  by (simp add: joined_of_machine_def)

text \<open>
  C7. With machine ids unique, the distribution holds exactly one row for each machine;
  a row's name is the location if it is not empty, else the description if it is not
  empty, else \<^verbatim>\<open>Machine \<close> followed by the id; a machine without inventory rows has
  \<open>total_qty = 0\<close> and \<open>total_value = 0\<close>; and the rows come in descending order of
  \<open>total_qty\<close>.
\<close>

theorem machine_distribution_rows:
  assumes "distinct (map m_machine_id (machines d))"
  shows "mset (map machine_id (get_machine_distribution d))
           = mset (map (\<lambda>m. JNum (of_int (m_machine_id m))) (machines d))
     \<and> (\<forall>m\<in>set (machines d). \<exists>r\<in>set (get_machine_distribution d).
           machine_id r = JNum (of_int (m_machine_id m))
           \<and> machine_name r =
               (if m_location m \<noteq> None \<and> m_location m \<noteq> Some [] then the (m_location m)
                else if m_description m \<noteq> None \<and> m_description m \<noteq> Some [] then the (m_description m)
                else ''Machine '' @ string_of_int (m_machine_id m))
           \<and> (filter (\<lambda>i. i_machine_id i = m_machine_id m) (inventory d) = [] \<longrightarrow>
                total_qty r = JNum 0 \<and> total_value r = JNum 0))
     \<and> (\<exists>ts. map total_qty (get_machine_distribution d) = map JNum ts \<and> sorted_wrt (\<lambda>a b. b \<le> a) ts)"
proof (intro conjI ballI)
  let ?share = "\<lambda>m. \<lparr>sr_machine_id = m_machine_id m, sr_machine_name = sql_machine_name m,
                   sr_total_qty = COALESCE (sql_sum (map (\<lambda>r. fst (snd r)) (joined_of_machine d m))) 0,
                   sr_total_value = COALESCE (sql_sum (map (\<lambda>r. snd (snd r)) (joined_of_machine d m))) 0\<rparr>"
  let ?js = "\<lambda>r. \<lparr>machine_id = driver_int (sr_machine_id r),
                machine_name = sr_machine_name r,
                total_qty = Number (js_or (driver_decimal (sr_total_qty r)) (JNum 0)),
                total_value = Number (js_or (driver_decimal (sr_total_value r)) (JNum 0))\<rparr>"
  have q: "distribution_query d = sort_key (\<lambda>r. - sr_total_qty r) (map ?share (machines d))"
    using assms by (rule distribution_query_by_machine)
  have "mset (map machine_id (get_machine_distribution d))
          = image_mset (\<lambda>r. driver_int (sr_machine_id r)) (mset (distribution_query d))"
    by (simp add: get_machine_distribution_def comp_def)
  also have "\<dots> = mset (map (\<lambda>m. JNum (of_int (m_machine_id m))) (machines d))"
    unfolding q by (simp add: multiset.map_comp comp_def driver_int_def)
  finally show "mset (map machine_id (get_machine_distribution d))
           = mset (map (\<lambda>m. JNum (of_int (m_machine_id m))) (machines d))" .
  show "\<exists>ts. map total_qty (get_machine_distribution d) = map JNum ts \<and> sorted_wrt (\<lambda>a b. b \<le> a) ts"
    using total_qty_of_rows distribution_query_sorted by blast
  fix m assume m: "m \<in> set (machines d)"
  have "?share m \<in> set (distribution_query d)"
    unfolding q using m by simp
  then have in_set: "?js (?share m) \<in> set (get_machine_distribution d)"
    unfolding get_machine_distribution_def by (simp only: set_map) (rule imageI)
  have zero: "filter (\<lambda>i. i_machine_id i = m_machine_id m) (inventory d) = [] \<longrightarrow>
                total_qty (?js (?share m)) = JNum 0 \<and> total_value (?js (?share m)) = JNum 0"
    by (simp add: joined_of_machine_empty sql_sum_def COALESCE_def List.map_filter_simps)
  show "\<exists>r\<in>set (get_machine_distribution d).
           machine_id r = JNum (of_int (m_machine_id m))
           \<and> machine_name r =
               (if m_location m \<noteq> None \<and> m_location m \<noteq> Some [] then the (m_location m)
                else if m_description m \<noteq> None \<and> m_description m \<noteq> Some [] then the (m_description m)
                else ''Machine '' @ string_of_int (m_machine_id m))
           \<and> (filter (\<lambda>i. i_machine_id i = m_machine_id m) (inventory d) = [] \<longrightarrow>
                total_qty r = JNum 0 \<and> total_value r = JNum 0)"
    using in_set zero sql_machine_name_priority [of m]
    by (intro bexI [of _ "?js (?share m)"]) (simp_all add: driver_int_def)
qed

theorem machine_distribution_rows_witness:
  "distinct (map m_machine_id (machines stocked))
   \<and> get_machine_distribution stocked =
       [\<lparr>machine_id = JNum 1, machine_name = ''Lobby'', total_qty = JNum 15, total_value = JNum 30\<rparr>,
        \<lparr>machine_id = JNum 2, machine_name = ''Gym'', total_qty = JNum 10, total_value = JNum 15\<rparr>,
        \<lparr>machine_id = JNum 3, machine_name = ''Machine 3'', total_qty = JNum 0, total_value = JNum 0\<rparr>]
   \<and> mset (map machine_id (get_machine_distribution stocked)) = {#JNum 1, JNum 2, JNum 3#}"
proof -
  have dist: "distinct (map m_machine_id (machines stocked))"
    by (simp add: stocked_def shop_def)
  have ms: "mset (map (\<lambda>m. JNum (of_int (m_machine_id m))) (machines stocked)) = {#JNum 1, JNum 2, JNum 3#}"
    by (simp add: stocked_def shop_def)
  have ev: "get_machine_distribution stocked =
       [\<lparr>machine_id = JNum 1, machine_name = ''Lobby'', total_qty = JNum 15, total_value = JNum 30\<rparr>,
        \<lparr>machine_id = JNum 2, machine_name = ''Gym'', total_qty = JNum 10, total_value = JNum 15\<rparr>,
        \<lparr>machine_id = JNum 3, machine_name = ''Machine 3'', total_qty = JNum 0, total_value = JNum 0\<rparr>]"
    by code_simp
  show ?thesis
    using dist ev machine_distribution_rows [OF dist, THEN conjunct1] unfolding ms by simp
qed

subsection \<open>Numbers in the analytics responses\<close>

text \<open>
  The fields that the handlers do coerce are numbers, whatever the store holds.
\<close>

lemma coerced_fields_are_numbers:
  "is_number (total_stock_value (get_metrics d))"
  "is_number (total_revenue (get_metrics d))"
  "is_number (total_sales_count (get_metrics d))"
  "list_all (\<lambda>t. is_number (total_sales t)) (top_selling_products (get_metrics d))"
  "list_all (\<lambda>r. is_number (total_qty r) \<and> is_number (total_value r)) (get_machine_distribution d)"
  by (simp_all add: get_metrics_def get_machine_distribution_def driver_int_def list_all_iff)

text \<open>
  C8 fails for \<open>total_stock_quantity\<close>: the handler passes the sum on as the driver
  hands it over, a string, where the sibling sums go through \<^verbatim>\<open>Number(...)\<close>. With 25
  units in stock the field is the string \<^verbatim>\<open>"25"\<close> beside six numeric fields, with an empty
  ledger it is the string \<^verbatim>\<open>"0"\<close>; the compatibility route and the older server file do
  the same.
\<close>

theorem total_stock_quantity_not_coerced:
  "get_metrics trading =
     \<lparr>total_products = JNum 2, total_machines = JNum 3, total_stock_quantity = JNumStr 25,
      total_stock_value = JNum 45, total_revenue = JNum (11 / 2), total_sales_count = JNum 2,
      top_selling_products = [\<lparr>product_name = ''Chips'', total_sales = JNum 2\<rparr>,
                              \<lparr>product_name = ''Cola'', total_sales = JNum 1\<rparr>]\<rparr>
   \<and> \<not> is_number (total_stock_quantity (get_metrics trading))
   \<and> total_stock_quantity (get_metrics shop) = JNumStr 0
   \<and> itemsInStock (get_dashboard_metrics trading) = JNumStr 25
   \<and> total_stock_quantity (get_metrics_cjs trading) = JNumStr 25"
  by code_simp

subsection \<open>What the direct set leaves alone\<close>

lemma update_qty_frame:
  "products (update_qty q k d) = products d" "machines (update_qty q k d) = machines d"
  "sales (update_qty q k d) = sales d" "sale_items (update_qty q k d) = sale_items d"
  "next_inv_id (update_qty q k d) = next_inv_id d"
  by (simp_all add: update_qty_def)

lemma update_qty_erased:
  "map (\<lambda>r. r\<lparr>i_qty := 0\<rparr>) (inventory (update_qty q k d)) = map (\<lambda>r. r\<lparr>i_qty := 0\<rparr>) (inventory d)"
  by (simp add: update_qty_def comp_def if_distrib [of "\<lambda>r. r\<lparr>i_qty := 0\<rparr>"] cong: if_cong)

lemma update_qty_last_restock:
  "map i_last_restock (inventory (update_qty q k d)) = map i_last_restock (inventory d)"
  by (simp add: update_qty_def comp_def if_distrib [of i_last_restock] cong: if_cong)

lemma update_qty_others:
  "filter (\<lambda>r. i_inv_id r \<noteq> k) (inventory (update_qty q k d)) = filter (\<lambda>r. i_inv_id r \<noteq> k) (inventory d)"
  unfolding update_qty_def by (induction "inventory d" arbitrary: d) (auto simp: filter_map comp_def intro: map_idI)


text \<open>
  C9. A direct-set request changes nothing but the \<open>qty\<close> field of the rows with the
  targeted id: the other tables and the id counter are the same, every row keeps all its
  other fields, \<open>last_restock\<close> among them, and the rows with another id are the same.
\<close>

theorem set_quantity_frame:
  "products (snd (put_inventory conv invId b d)) = products d
   \<and> machines (snd (put_inventory conv invId b d)) = machines d
   \<and> sales (snd (put_inventory conv invId b d)) = sales d
   \<and> sale_items (snd (put_inventory conv invId b d)) = sale_items d
   \<and> next_inv_id (snd (put_inventory conv invId b d)) = next_inv_id d
   \<and> map (\<lambda>r. r\<lparr>i_qty := 0\<rparr>) (inventory (snd (put_inventory conv invId b d)))
       = map (\<lambda>r. r\<lparr>i_qty := 0\<rparr>) (inventory d)
   \<and> map i_last_restock (inventory (snd (put_inventory conv invId b d))) = map i_last_restock (inventory d)
   \<and> (\<forall>k. bind_int conv invId = Some k \<longrightarrow>
         filter (\<lambda>r. i_inv_id r \<noteq> k) (inventory (snd (put_inventory conv invId b d)))
         = filter (\<lambda>r. i_inv_id r \<noteq> k) (inventory d))
   \<and> (bind_int conv invId = None \<longrightarrow> snd (put_inventory conv invId b d) = d)"
  by (simp add: put_inventory_def Let_def update_qty_frame update_qty_erased
      update_qty_last_restock update_qty_others split: option.splits)

theorem set_quantity_frame_witness:
  "bind_int no_conv (JNum 1) = Some 1
   \<and> inventory (snd (put_inventory no_conv (JNum 1) [''qty'' \<mapsto> JNum 4] stocked))
     = [\<lparr>i_inv_id = 1, i_machine_id = 2, i_product_id = 1, i_qty = 4, i_last_restock = 100\<rparr>,
        \<lparr>i_inv_id = 2, i_machine_id = 1, i_product_id = 2, i_qty = 15, i_last_restock = 120\<rparr>]
   \<and> filter (\<lambda>r. i_inv_id r \<noteq> 1) (inventory (snd (put_inventory no_conv (JNum 1) [''qty'' \<mapsto> JNum 4] stocked)))
     = filter (\<lambda>r. i_inv_id r \<noteq> 1) (inventory stocked)
   \<and> map i_last_restock (inventory (snd (put_inventory no_conv (JNum 1) [''qty'' \<mapsto> JNum 4] stocked))) = [100, 120]"
  using set_quantity_frame [of no_conv "JNum 1" "[''qty'' \<mapsto> JNum 4]" stocked]
  by (simp add: put_inventory_def isNaN_def update_qty_def stocked_def shop_def Let_def)

subsection \<open>The service layer of the frontend and the key it sends\<close>

lemma JSON_stringify_absent: "k \<notin> fst ` set kvs \<Longrightarrow> JSON_stringify kvs k = None"
  by (induction kvs) (auto split: option.splits)

lemma field_absent: "b k = None \<Longrightarrow> field b k = JUndefined"
  by (simp add: field_def)

text \<open>
  C10. Every call of \<open>updateInventory\<close> and of \<open>restockInventory\<close> sends a body with the
  key \<open>quantity\<close> and without the key \<open>qty\<close>; both server files answer 400 and leave
  the store as it was, whatever the arguments.
\<close>

theorem service_layer_calls_rejected:
  "server conv now (updateInventory invId quantity) d = (Response 400 (PError ''qty required''), d)
   \<and> server_cjs conv now (updateInventory invId quantity) d = (Response 400 (PError ''qty required''), d)
   \<and> server conv now (restockInventory machineId productId quantity) d =
       (Response 400 (PError ''machine_id, product_id, qty required''), d)
   \<and> server_cjs conv now (restockInventory machineId productId quantity) d =
       (Response 400 (PError ''machine_id, product_id, qty required''), d)"
proof -
  have u: "field (JSON_stringify [(''quantity'', quantity)]) ''qty'' = JUndefined"
    by (rule field_absent, rule JSON_stringify_absent) simp
  have r: "field (JSON_stringify [(''machine_id'', machineId), (''product_id'', productId),
                                  (''quantity'', quantity)]) ''qty'' = JUndefined"
    by (rule field_absent, rule JSON_stringify_absent) simp
  show ?thesis
    by (simp add: updateInventory_def restockInventory_def put_inventory_def
        post_inventory_def post_inventory_cjs_def u r Let_def del: JSON_stringify.simps)
qed

end
